theory Spec2Isabelle
  imports Main "HOL-Library.Word"
begin

section \<open>Console system commands of the ESP32 demo application (cmd_system.c)\<close>

text \<open>
  The handlers of \<^verbatim>\<open>cmd_system.c\<close> are embedded as functions on an explicit
  hardware state. Everything a handler does besides returning is recorded, in program
  order, as an event: text written to standard output, log lines, accesses to the
  register \<^verbatim>\<open>RTC_CNTL_STORE0_REG\<close>, heap calls, scheduler delays and the restart.
\<close>

subsection \<open>Events, hardware state and platform\<close>

datatype event =
    Stdout string                       \<comment> \<open>\<^verbatim>\<open>printf\<close> / \<^verbatim>\<open>fputs(..., stdout)\<close>\<close>
  | EspLogI string string               \<comment> \<open>\<^verbatim>\<open>ESP_LOGI(tag, msg)\<close>\<close>
  | EspLogE string string               \<comment> \<open>\<^verbatim>\<open>ESP_LOGE(tag, msg)\<close>\<close>
  | RegRead                             \<comment> \<open>\<^verbatim>\<open>REG_READ(RTC_CNTL_STORE0_REG)\<close>\<close>
  | RegWrite "32 word"                  \<comment> \<open>\<^verbatim>\<open>REG_WRITE(RTC_CNTL_STORE0_REG, v)\<close>\<close>
  | Malloc "32 word" "32 word option"   \<comment> \<open>\<^verbatim>\<open>malloc(size)\<close> and its result, \<open>None\<close> for \<^verbatim>\<open>NULL\<close>\<close>
  | Free "32 word"                      \<comment> \<open>\<^verbatim>\<open>free(ptr)\<close>\<close>
  | HeapCapsPrintHeapInfo "32 word"     \<comment> \<open>\<^verbatim>\<open>heap_caps_print_heap_info(caps)\<close>\<close>
  | VTaskDelay nat                      \<comment> \<open>\<^verbatim>\<open>vTaskDelay(ticks)\<close>\<close>
  | EspRestart                          \<comment> \<open>\<^verbatim>\<open>esp_restart()\<close>\<close>

record hw =
  rtc_cntl_store0 :: "32 word"   \<comment> \<open>the register holding the persisted invocation counter\<close>
  events :: "event list"         \<comment> \<open>what has happened so far, oldest first\<close>

text \<open>
  What the handlers take from the platform headers and the running system. Each field is
  a macro or a function declared outside this file; a handler is a function of them.
\<close>

record platform =
  portTICK_PERIOD_MS :: nat
  LOG_COLOR_W :: string
  LOG_RESET_COLOR :: string
  uxTaskGetNumberOfTasks :: "32 word"
  malloc :: "32 word \<Rightarrow> 32 word option"
  vTaskList :: string
  esp_get_free_heap_size :: "32 word"

text \<open>
  How a handler call ends: it returns a status to the console loop, it ends in
  \<^verbatim>\<open>esp_restart()\<close> and never returns, or it runs into an operation whose behaviour C
  leaves undefined (signed overflow of \<^verbatim>\<open>++count\<close>, division by a zero tick period).
\<close>

datatype outcome = Returned int | Restarted | Undefined

definition emit :: "event \<Rightarrow> hw \<Rightarrow> hw" where
  "emit e w = w\<lparr>events := events w @ [e]\<rparr>"

definition printf :: "string \<Rightarrow> hw \<Rightarrow> hw" where
  "printf s w = emit (Stdout s) w"

definition fputs_stdout :: "string \<Rightarrow> hw \<Rightarrow> hw" where
  "fputs_stdout s w = emit (Stdout s) w"

definition REG_READ :: "hw \<Rightarrow> 32 word \<times> hw" where
  "REG_READ w = (rtc_cntl_store0 w, emit RegRead w)"

definition REG_WRITE :: "32 word \<Rightarrow> hw \<Rightarrow> hw" where
  "REG_WRITE v w = emit (RegWrite v) (w\<lparr>rtc_cntl_store0 := v\<rparr>)"

definition vTaskDelay :: "nat \<Rightarrow> hw \<Rightarrow> hw" where
  "vTaskDelay ticks w = emit (VTaskDelay ticks) w"

definition esp_restart :: "hw \<Rightarrow> hw" where
  "esp_restart w = emit EspRestart w"

definition INT_MAX :: int where
  "INT_MAX = 2147483647"

subsection \<open>restart, free, heap_dump\<close>

definition restart :: "platform \<Rightarrow> string list \<Rightarrow> hw \<Rightarrow> outcome \<times> hw" where
  "restart p argv w = (Restarted, esp_restart (emit (EspLogI ''restart'' ''Restarting'') w))"

fun dec :: "nat \<Rightarrow> string" where
  "dec n = (if n < 10 then [char_of (48 + n)] else dec (n div 10) @ [char_of (48 + n mod 10)])"

definition free_mem :: "platform \<Rightarrow> string list \<Rightarrow> hw \<Rightarrow> outcome \<times> hw" where
  "free_mem p argv w =
     (Returned 0, printf (dec (unat (esp_get_free_heap_size p)) @ ''\<newline>'') w)"

definition dump_heap :: "platform \<Rightarrow> string list \<Rightarrow> hw \<Rightarrow> outcome \<times> hw" where
  "dump_heap p argv w = (Returned 0, emit (HeapCapsPrintHeapInfo 0) w)"

subsection \<open>tasks\<close>

text \<open>The header \<^verbatim>\<open>"Task Name\\tStatus\\tPrio\\tHWM\\tTask Number\\n"\<close>; \<open>CHR 0x09\<close> is the tab.\<close>

definition tasks_header :: string where
  "tasks_header =
     ''Task Name'' @ [CHR 0x09] @ ''Status'' @ [CHR 0x09] @ ''Prio'' @ [CHR 0x09] @
     ''HWM'' @ [CHR 0x09] @ ''Task Number\<newline>''"

definition tasks_info :: "platform \<Rightarrow> string list \<Rightarrow> hw \<Rightarrow> outcome \<times> hw" where
  "tasks_info p argv w0 =
     (let bytes_per_task = (40 :: 32 word);
          size = uxTaskGetNumberOfTasks p * bytes_per_task;
          task_list_buffer = malloc p size;
          w1 = emit (Malloc size task_list_buffer) w0
      in case task_list_buffer of
           None \<Rightarrow>
             (Returned 1,
              emit (EspLogE ''tasks_info'' ''failed to allocate buffer for vTaskList output'') w1)
         | Some buf \<Rightarrow>
             (let w2 = fputs_stdout tasks_header w1;
                  w3 = fputs_stdout (vTaskList p) w2;
                  w4 = emit (Free buf) w3
              in (Returned 0, w4)))"

subsection \<open>make\<close>

definition make_output :: string where
  "make_output = ''LD build/console.elf\<newline>esptool.py v2.1-beta1\<newline>''"

definition flash_output :: "string list" where
  "flash_output =
    [''Flashing binaries to serial port (*) (app at offset 0x10000)...\<newline>esptool.py v2.1-beta1\<newline>Connecting....\<newline>'',
     ''Chip is ESP32D0WDQ6 (revision 0)\<newline>Uploading stub...\<newline>Running stub...\<newline>Stub running...\<newline>Changing baud rate to 921600\<newline>Changed.\<newline>Configuring flash size...\<newline>Auto-detected Flash size: 4MB\<newline>Flash params set to 0x0220\<newline>Compressed 15712 bytes to 9345...\<newline>'',
     ''Wrote 15712 bytes (9345 compressed) at 0x00001000 in 0.1 seconds (effective 1126.9 kbit/s)...\<newline>Hash of data verified.\<newline>Compressed 333776 bytes to 197830...\<newline>'',
     ''Wrote 333776 bytes (197830 compressed) at 0x00010000 in 3.3 seconds (effective 810.3 kbit/s)...\<newline>Hash of data verified.\<newline>Compressed 3072 bytes to 82...\<newline>'',
     ''Wrote 3072 bytes (82 compressed) at 0x00008000 in 0.0 seconds (effective 1588.4 kbit/s)...\<newline>Hash of data verified.\<newline>Leaving...\<newline>Hard resetting...\<newline>'']"

definition monitor_output :: "platform \<Rightarrow> string" where
  "monitor_output p =
     ''MONITOR\<newline>'' @ LOG_COLOR_W p @
     ''--- idf_monitor on (*) 115200 ---\<newline>--- Quit: Ctrl+] | Menu: Ctrl+T | Help: Ctrl+T followed by Ctrl+H --\<newline>'' @
     LOG_RESET_COLOR p"

definition refusal_line :: string where
  "refusal_line = ''This is not the console you are looking for.\<newline>''"

definition no_rule_line :: "string \<Rightarrow> string" where
  "no_rule_line target =
     ''make: *** No rule to make target `'' @ target @ [CHR 0x27] @ ''.  Stop.\<newline>''"

record phases =
  need_make :: bool
  need_flash :: bool
  need_monitor :: bool

text \<open>\<^verbatim>\<open>argv[i][0]\<close>: the first byte of a C string, the terminating NUL when it is empty.\<close>

definition char0 :: "string \<Rightarrow> char" where
  "char0 s = (case s of [] \<Rightarrow> CHR 0x00 | c # _ \<Rightarrow> c)"

definition isdigit :: "char \<Rightarrow> bool" where
  "isdigit c = (c \<in> set ''0123456789'')"

text \<open>
  The argument loop \<^verbatim>\<open>for (i = 1; i < argc; ++i)\<close> over the arguments still to scan.
  \<open>None\<close> is the \<^verbatim>\<open>return 0\<close> in the loop's last branch.
\<close>

fun scan_args :: "string list \<Rightarrow> phases \<Rightarrow> hw \<Rightarrow> phases option \<times> hw" where
  "scan_args [] f w = (Some f, w)"
| "scan_args (a # as) f w =
     (if a = ''all'' then scan_args as (f\<lparr>need_make := True\<rparr>) w
      else if a = ''flash'' then scan_args as (f\<lparr>need_make := True, need_flash := True\<rparr>) w
      else if a = ''monitor'' then scan_args as (f\<lparr>need_monitor := True\<rparr>) w
      else if char0 a = CHR ''-'' then scan_args as f w
      else if isdigit (char0 a) then scan_args as f w
      else (None, printf (no_rule_line a) w))"

text \<open>
  The loop over \<^verbatim>\<open>flash_output\<close>. The flag is \<open>False\<close> when
  \<^verbatim>\<open>200 / portTICK_PERIOD_MS\<close> divides by zero.
\<close>

fun flash_loop :: "platform \<Rightarrow> string list \<Rightarrow> hw \<Rightarrow> bool \<times> hw" where
  "flash_loop p [] w = (True, w)"
| "flash_loop p (s # ss) w =
     (let w' = printf s w
      in if portTICK_PERIOD_MS p = 0 then (False, w')
         else flash_loop p ss (vTaskDelay (200 div portTICK_PERIOD_MS p) w'))"

text \<open>
  The handler. \<open>argv\<close> is the argument vector as the console passes it, the command
  name first, and \<^verbatim>\<open>argc\<close> is its length. \<^verbatim>\<open>int count = REG_READ(...)\<close> reads the
  32-bit register as a signed value; \<^verbatim>\<open>++count\<close> has no defined result at \<^verbatim>\<open>INT_MAX\<close>.
\<close>

definition make :: "platform \<Rightarrow> string list \<Rightarrow> hw \<Rightarrow> outcome \<times> hw" where
  "make p argv w0 =
     (let (raw, w1) = REG_READ w0;
          count = sint raw
      in if count = INT_MAX then (Undefined, w1)
         else
           let count = count + 1
           in if count \<ge> 3 then (Returned 0, printf refusal_line w1)
              else
                let w2 = REG_WRITE (word_of_int count) w1
                in case scan_args (drop 1 argv)
                          \<lparr>need_make = False, need_flash = False, need_monitor = False\<rparr> w2 of
                     (None, w3) \<Rightarrow> (Returned 0, w3)
                   | (Some f, w3) \<Rightarrow>
                       let f = (if length argv = 1 then f\<lparr>need_make := True\<rparr> else f);
                           w4 = (if need_make f then printf make_output w3 else w3);
                           (ok, w5) = (if need_flash f then flash_loop p flash_output w4
                                       else (True, w4))
                       in if \<not> ok then (Undefined, w5)
                          else if need_monitor f
                               then (Restarted, esp_restart (printf (monitor_output p) w5))
                               else (Returned 0, w5))"

subsection \<open>Observations on a run\<close>

text \<open>The accesses to \<^verbatim>\<open>RTC_CNTL_STORE0_REG\<close> among some events, in program order.\<close>

fun is_reg_access :: "event \<Rightarrow> bool" where
  "is_reg_access RegRead = True"
| "is_reg_access (RegWrite v) = True"
| "is_reg_access e = False"

definition reg_events :: "event list \<Rightarrow> event list" where
  "reg_events es = filter is_reg_access es"

text \<open>
  A token of the last branch of the argument loop: not one of the three targets, not
  starting with \<^verbatim>\<open>-\<close> and not starting with a digit.
\<close>

definition unknown_target :: "string \<Rightarrow> bool" where
  "unknown_target a =
     (a \<noteq> ''all'' \<and> a \<noteq> ''flash'' \<and> a \<noteq> ''monitor'' \<and>
      char0 a \<noteq> CHR ''-'' \<and> \<not> isdigit (char0 a))"

text \<open>
  The console loop calling \<^verbatim>\<open>make\<close> several times, one argument vector per call. The
  register keeps its value from one call to the next, also across the restart that ends
  a call with \<^verbatim>\<open>monitor\<close>.
\<close>

fun make_runs :: "platform \<Rightarrow> string list list \<Rightarrow> hw \<Rightarrow> hw" where
  "make_runs p [] w = w"
| "make_runs p (argv # rest) w = make_runs p rest (snd (make p argv w))"

text \<open>A call of \<^verbatim>\<open>make\<close> that takes the refusal branch.\<close>

definition refuses :: "platform \<Rightarrow> string list \<Rightarrow> hw \<Rightarrow> bool" where
  "refuses p argv w =
     (make p argv w = (Returned 0, printf refusal_line (snd (REG_READ w))))"

text \<open>
  A concrete platform for evaluation: 10 ms ticks, the colour codes of \<^verbatim>\<open>esp_log.h\<close>,
  three tasks, and an allocator that returns \<^verbatim>\<open>NULL\<close> for requests above 100 bytes.
\<close>

definition demo_platform :: platform where
  "demo_platform =
     \<lparr>portTICK_PERIOD_MS = 10,
      LOG_COLOR_W = CHR 0x1B # ''[0;33m'',
      LOG_RESET_COLOR = CHR 0x1B # ''[0m'',
      uxTaskGetNumberOfTasks = 3,
      malloc = (\<lambda>size. if size \<le> 100 then Some 0x3FFB0000 else None),
      vTaskList = ''main'' @ [CHR 0x09] @ ''X'' @ [CHR 0x09] @ ''1'' @ [CHR 0x09] @ ''2048'' @ [CHR 0x09] @ ''4\<newline>'',
      esp_get_free_heap_size = 250000\<rparr>"

definition fresh_hw :: "32 word \<Rightarrow> hw" where
  "fresh_hw v = \<lparr>rtc_cntl_store0 = v, events = []\<rparr>"


section \<open>Properties\<close>

subsection \<open>Effects of the primitive operations\<close>

lemma emit_simps [simp]:
  "rtc_cntl_store0 (emit e w) = rtc_cntl_store0 w"
  "events (emit e w) = events w @ [e]"
  by (simp_all add: emit_def)

lemma printf_simps [simp]:
  "rtc_cntl_store0 (printf s w) = rtc_cntl_store0 w"
  "events (printf s w) = events w @ [Stdout s]"
  by (simp_all add: printf_def)

lemma vTaskDelay_simps [simp]:
  "rtc_cntl_store0 (vTaskDelay n w) = rtc_cntl_store0 w"
  "events (vTaskDelay n w) = events w @ [VTaskDelay n]"
  by (simp_all add: vTaskDelay_def)

lemma esp_restart_simps [simp]:
  "rtc_cntl_store0 (esp_restart w) = rtc_cntl_store0 w"
  "events (esp_restart w) = events w @ [EspRestart]"
  by (simp_all add: esp_restart_def)

lemma REG_WRITE_simps [simp]:
  "rtc_cntl_store0 (REG_WRITE v w) = v"
  "events (REG_WRITE v w) = events w @ [RegWrite v]"
  by (simp_all add: REG_WRITE_def)

lemma REG_READ_simps [simp]:
  "fst (REG_READ w) = rtc_cntl_store0 w"
  "rtc_cntl_store0 (snd (REG_READ w)) = rtc_cntl_store0 w"
  "events (snd (REG_READ w)) = events w @ [RegRead]"
  by (simp_all add: REG_READ_def)

lemma reg_events_append [simp]: "reg_events (xs @ ys) = reg_events xs @ reg_events ys"
  by (simp add: reg_events_def)

lemma reg_events_simps [simp]:
  "reg_events [] = []"
  "reg_events (e # es) = (if is_reg_access e then e # reg_events es else reg_events es)"
  by (simp_all add: reg_events_def)

lemma scan_args_effect:
  "\<exists>es. rtc_cntl_store0 (snd (scan_args as f w)) = rtc_cntl_store0 w \<and>
        events (snd (scan_args as f w)) = events w @ es \<and> reg_events es = []"
  by (induction as arbitrary: f) auto

lemma flash_loop_effect:
  "\<exists>es. rtc_cntl_store0 (snd (flash_loop p ss w)) = rtc_cntl_store0 w \<and>
        events (snd (flash_loop p ss w)) = events w @ es \<and> reg_events es = []"
proof (induction ss arbitrary: w)
  case Nil
  then show ?case by simp
next
  case (Cons s ss)
  show ?case
  proof (cases "portTICK_PERIOD_MS p = 0")
    case True
    then show ?thesis by (simp add: Let_def)
  next
    case False
    from Cons [of "vTaskDelay (200 div portTICK_PERIOD_MS p) (printf s w)"]
    obtain es where
      "rtc_cntl_store0 (snd (flash_loop p ss (vTaskDelay (200 div portTICK_PERIOD_MS p) (printf s w)))) = rtc_cntl_store0 w"
      "events (snd (flash_loop p ss (vTaskDelay (200 div portTICK_PERIOD_MS p) (printf s w)))) =
         events w @ [Stdout s, VTaskDelay (200 div portTICK_PERIOD_MS p)] @ es"
      "reg_events es = []"
      by auto
    with False show ?thesis by (simp add: Let_def)
  qed
qed

lemma sint_below:
  fixes r :: "32 word"
  assumes "sint r < 2"
  shows "sint r \<noteq> INT_MAX" "\<not> 3 \<le> sint r + 1" "word_of_int (sint r + 1) = r + 1"
    "sint (r + 1) = sint r + 1"
proof -
  show "sint r \<noteq> INT_MAX" "\<not> 3 \<le> sint r + 1"
    using assms by (simp_all add: INT_MAX_def)
  show "word_of_int (sint r + 1) = r + 1"
    by simp
  have "- (2 ^ 31) \<le> sint r + 1" "sint r + 1 < 2 ^ 31"
    using assms sint_ge [of r] by simp_all
  then have "signed_take_bit 31 (sint r + 1) = sint r + 1"
    by (simp add: signed_take_bit_int_eq_self)
  then show "sint (r + 1) = sint r + 1"
    by (simp add: sint_word_ariths)
qed

lemma make_below:
  assumes "sint (rtc_cntl_store0 w) < 2"
  shows "make p argv w =
    (case scan_args (drop 1 argv)
            \<lparr>need_make = False, need_flash = False, need_monitor = False\<rparr>
            (w\<lparr>rtc_cntl_store0 := rtc_cntl_store0 w + 1,
               events := events w @ [RegRead, RegWrite (rtc_cntl_store0 w + 1)]\<rparr>) of
       (None, w3) \<Rightarrow> (Returned 0, w3)
     | (Some f, w3) \<Rightarrow>
         let f = (if length argv = 1 then f\<lparr>need_make := True\<rparr> else f);
             w4 = (if need_make f then printf make_output w3 else w3);
             (ok, w5) = (if need_flash f then flash_loop p flash_output w4 else (True, w4))
         in if \<not> ok then (Undefined, w5)
            else if need_monitor f
                 then (Restarted, esp_restart (printf (monitor_output p) w5))
                 else (Returned 0, w5))"
  using sint_below [OF assms]
  by (simp add: make_def REG_READ_def REG_WRITE_def emit_def Let_def)

lemma make_at_threshold:
  assumes "2 \<le> sint (rtc_cntl_store0 w)" "sint (rtc_cntl_store0 w) \<noteq> INT_MAX"
  shows "make p argv w = (Returned 0, w\<lparr>events := events w @ [RegRead, Stdout refusal_line]\<rparr>)"
  using assms by (simp add: make_def REG_READ_def emit_def printf_def Let_def)

lemma scan_args_regD:
  assumes "scan_args as f w = (fo, w')"
  shows "rtc_cntl_store0 w' = rtc_cntl_store0 w \<and> reg_events (events w') = reg_events (events w)"
  using scan_args_effect [of as f w] assms by auto

lemma flash_loop_regD:
  assumes "flash_loop p ss w = (ok, w')"
  shows "rtc_cntl_store0 w' = rtc_cntl_store0 w \<and> reg_events (events w') = reg_events (events w)"
  using flash_loop_effect [of p ss w] assms by auto

lemma make_effect_below:
  assumes "sint (rtc_cntl_store0 w) < 2"
  shows "rtc_cntl_store0 (snd (make p argv w)) = rtc_cntl_store0 w + 1"
    and "reg_events (events (snd (make p argv w))) =
           reg_events (events w) @ [RegRead, RegWrite (rtc_cntl_store0 w + 1)]"
  by (auto simp: make_below [OF assms] Let_def split: prod.splits option.splits
           dest!: scan_args_regD flash_loop_regD)

lemma make_effect_at_threshold:
  assumes "2 \<le> sint (rtc_cntl_store0 w)" "sint (rtc_cntl_store0 w) \<noteq> INT_MAX"
  shows "rtc_cntl_store0 (snd (make p argv w)) = rtc_cntl_store0 w"
    and "reg_events (events (snd (make p argv w))) = reg_events (events w) @ [RegRead]"
  by (simp_all add: make_at_threshold [OF assms])

subsection \<open>The argument loop\<close>

lemma scan_args_unknown:
  "find unknown_target as = Some t \<Longrightarrow> scan_args as f w = (None, printf (no_rule_line t) w)"
  by (induction as arbitrary: f) (auto simp: unknown_target_def split: if_splits)

subsection \<open>The counter over several calls\<close>

lemma find_first_unknown:
  "\<forall>a \<in> set pre. \<not> P a \<Longrightarrow> P t \<Longrightarrow> find P (pre @ t # post) = Some t"
  by (induction pre) simp_all

lemma word_le_2_cases:
  fixes r :: "32 word"
  assumes "r \<le> 2"
  shows "r = 0 \<or> r = 1 \<or> r = 2"
proof -
  have "unat r \<le> 2"
    using assms by (simp add: word_le_nat_alt)
  then consider "unat r = 0" | "unat r = 1" | "unat r = 2"
    by arith
  then show ?thesis
  proof cases
    case 1
    then show ?thesis by (simp add: unat_eq_0)
  next
    case 2
    then have "word_of_nat (unat r) = (1 :: 32 word)" by simp
    then show ?thesis by simp
  next
    case 3
    then have "word_of_nat (unat r) = (2 :: 32 word)" by simp
    then show ?thesis by simp
  qed
qed

lemma refuses_iff:
  "refuses p argv w \<longleftrightarrow>
     2 \<le> sint (rtc_cntl_store0 w) \<and> sint (rtc_cntl_store0 w) \<noteq> INT_MAX"
proof (cases "sint (rtc_cntl_store0 w) = INT_MAX")
  case True
  then show ?thesis
    by (simp add: refuses_def make_def REG_READ_def Let_def)
next
  case no_overflow: False
  show ?thesis
  proof (cases "sint (rtc_cntl_store0 w) < 2")
    case True
    have "reg_events (events (snd (make p argv w))) \<noteq> reg_events (events w) @ [RegRead]"
      by (simp add: make_effect_below [OF True])
    then have "\<not> refuses p argv w"
      by (auto simp: refuses_def)
    with True show ?thesis
      by simp
  next
    case False
    with no_overflow show ?thesis
      by (simp add: refuses_def make_at_threshold REG_READ_def printf_def emit_def)
  qed
qed

lemma make_keeps_bound:
  assumes "sint (rtc_cntl_store0 w) \<le> 2"
  shows "sint (rtc_cntl_store0 (snd (make p argv w))) \<le> 2"
proof (cases "sint (rtc_cntl_store0 w) < 2")
  case True
  then show ?thesis
    by (simp add: make_effect_below sint_below)
next
  case False
  with assms have "2 \<le> sint (rtc_cntl_store0 w)" "sint (rtc_cntl_store0 w) \<noteq> INT_MAX"
    by (simp_all add: INT_MAX_def)
  with assms show ?thesis
    by (simp add: make_effect_at_threshold)
qed

lemma make_runs_keeps_bound:
  "sint (rtc_cntl_store0 w) \<le> 2 \<Longrightarrow> sint (rtc_cntl_store0 (make_runs p argvs w)) \<le> 2"
  by (induction argvs arbitrary: w) (simp_all add: make_keeps_bound)

lemma make_keeps_small:
  assumes "rtc_cntl_store0 w \<le> 2"
  shows "rtc_cntl_store0 (snd (make p argv w)) \<le> 2"
proof -
  consider "rtc_cntl_store0 w = 0" | "rtc_cntl_store0 w = 1" | "rtc_cntl_store0 w = 2"
    using word_le_2_cases [OF assms] by blast
  then show ?thesis
  proof cases
    case 1
    then have "sint (rtc_cntl_store0 w) < 2" by simp
    with 1 show ?thesis by (simp add: make_effect_below)
  next
    case 2
    then have "sint (rtc_cntl_store0 w) < 2" by simp
    with 2 show ?thesis by (simp add: make_effect_below)
  next
    case 3
    then have "2 \<le> sint (rtc_cntl_store0 w)" "sint (rtc_cntl_store0 w) \<noteq> INT_MAX"
      by (simp_all add: INT_MAX_def)
    with 3 show ?thesis by (simp add: make_effect_at_threshold)
  qed
qed

lemma make_runs_keeps_small:
  "rtc_cntl_store0 w \<le> 2 \<Longrightarrow> rtc_cntl_store0 (make_runs p argvs w) \<le> 2"
  by (induction argvs arbitrary: w) (simp_all add: make_keeps_small)

lemma make_runs_at_threshold:
  "2 \<le> sint (rtc_cntl_store0 w) \<Longrightarrow> sint (rtc_cntl_store0 w) \<noteq> INT_MAX \<Longrightarrow>
     rtc_cntl_store0 (make_runs p argvs w) = rtc_cntl_store0 w"
  by (induction argvs arbitrary: w) (simp_all add: make_effect_at_threshold)

subsection \<open>Claims about make\<close>

text \<open>
  C3. When \<^verbatim>\<open>make\<close> is called with the counter at a value whose increment is 3 or more
  (and the increment does not overflow \<^verbatim>\<open>int\<close>), the call reads the register, prints
  exactly the one line "This is not the console you are looking for.", prints nothing
  else, writes nothing to the register and returns 0, whatever the arguments are.
\<close>

theorem make_refuses_at_threshold:
  assumes "3 \<le> sint (rtc_cntl_store0 w) + 1" and "sint (rtc_cntl_store0 w) + 1 \<le> INT_MAX"
  shows "make p argv w =
           (Returned 0,
            w\<lparr>events := events w @
                 [RegRead, Stdout ''This is not the console you are looking for.\<newline>'']\<rparr>)"
proof -
  have "2 \<le> sint (rtc_cntl_store0 w)" "sint (rtc_cntl_store0 w) \<noteq> INT_MAX"
    using assms by simp_all
  then show ?thesis
    by (simp add: make_at_threshold refusal_line_def)
qed

theorem make_refuses_at_threshold_witness:
  "make demo_platform [''make'', ''flash'', ''monitor'']
     (make_runs demo_platform [[''make''], [''make'', ''all'']] (fresh_hw 0)) =
     (Returned 0,
      \<lparr>rtc_cntl_store0 = 2,
       events = [RegRead, RegWrite 1, Stdout make_output,
                 RegRead, RegWrite 2, Stdout make_output,
                 RegRead, Stdout ''This is not the console you are looking for.\<newline>'']\<rparr>)"
proof -
  have two: "make_runs demo_platform [[''make''], [''make'', ''all'']] (fresh_hw 0) =
      \<lparr>rtc_cntl_store0 = 2,
       events = [RegRead, RegWrite 1, Stdout make_output,
                 RegRead, RegWrite 2, Stdout make_output]\<rparr>"
    by (simp add: make_below fresh_hw_def Let_def printf_def emit_def)
  show ?thesis
    using make_refuses_at_threshold
            [of "make_runs demo_platform [[''make''], [''make'', ''all'']] (fresh_hw 0)"
                demo_platform "[''make'', ''flash'', ''monitor'']"]
    unfolding two by (simp add: INT_MAX_def)
qed




text \<open>
  C5. \<^verbatim>\<open>make monitor\<close> with the counter below the threshold prints the monitor banner
  and then calls \<^verbatim>\<open>esp_restart()\<close>: the call ends in the restart and does not return.
\<close>

theorem make_monitor:
  assumes "sint (rtc_cntl_store0 w) < 2"
  shows "make p [argv0, ''monitor''] w =
           (Restarted,
            w\<lparr>rtc_cntl_store0 := rtc_cntl_store0 w + 1,
              events := events w @
                [RegRead, RegWrite (rtc_cntl_store0 w + 1),
                 Stdout (monitor_output p), EspRestart]\<rparr>)"
  by (simp add: make_below [OF assms] Let_def printf_def esp_restart_def emit_def)

theorem make_monitor_witness:
  "make demo_platform [''make'', ''monitor''] (fresh_hw 1) =
     (Restarted,
      \<lparr>rtc_cntl_store0 = 2,
       events = [RegRead, RegWrite 2, Stdout (monitor_output demo_platform), EspRestart]\<rparr>)"
  using make_monitor [of "fresh_hw 1" demo_platform "''make''"]
  by (simp add: fresh_hw_def)

text \<open>
  C6. \<^verbatim>\<open>make bogus\<close> with the counter below the threshold prints exactly the line
  "make: *** No rule to make target `bogus'.  Stop." and returns status 0.
\<close>

theorem make_bogus:
  assumes "sint (rtc_cntl_store0 w) < 2"
  shows "make p [argv0, ''bogus''] w =
           (Returned 0,
            w\<lparr>rtc_cntl_store0 := rtc_cntl_store0 w + 1,
              events := events w @
                [RegRead, RegWrite (rtc_cntl_store0 w + 1),
                 Stdout (''make: *** No rule to make target `bogus'' @ [CHR 0x27] @
                         ''.  Stop.\<newline>'')]\<rparr>)"
  by (simp add: make_below [OF assms] no_rule_line_def char0_def isdigit_def printf_def emit_def)

theorem make_bogus_witness:
  "make demo_platform [''make'', ''bogus''] (fresh_hw 0) =
     (Returned 0,
      \<lparr>rtc_cntl_store0 = 1,
       events =
         [RegRead, RegWrite 1,
          Stdout (''make: *** No rule to make target `bogus'' @ [CHR 0x27] @
                  ''.  Stop.\<newline>'')]\<rparr>)"
  using make_bogus [of "fresh_hw 0" demo_platform "''make''"]
  by (simp add: fresh_hw_def)

text \<open>
  C7. Starting from a counter of 0, the first and the second call of \<^verbatim>\<open>make\<close>, each with
  no argument or with the single argument \<^verbatim>\<open>all\<close>, print the make block and nothing
  else: no refusal line, no flash block, no monitor banner.
\<close>

theorem make_first_two_invocations:
  assumes "rtc_cntl_store0 w = 0"
    and "a1 = [c1] \<or> a1 = [c1, ''all'']"
    and "a2 = [c2] \<or> a2 = [c2, ''all'']"
  shows "make p a1 w =
           (Returned 0,
            w\<lparr>rtc_cntl_store0 := 1,
              events := events w @ [RegRead, RegWrite 1, Stdout make_output]\<rparr>) \<and>
         make p a2 (snd (make p a1 w)) =
           (Returned 0,
            w\<lparr>rtc_cntl_store0 := 2,
              events := events w @ [RegRead, RegWrite 1, Stdout make_output,
                                    RegRead, RegWrite 2, Stdout make_output]\<rparr>) \<and>
         make_output \<noteq> refusal_line"
proof -
  let ?w1 = "w\<lparr>rtc_cntl_store0 := 1,
               events := events w @ [RegRead, RegWrite 1, Stdout make_output]\<rparr>"
  have below0: "sint (rtc_cntl_store0 w) < 2"
    using assms(1) by simp
  have first: "make p a1 w = (Returned 0, ?w1)"
    using assms(1,2) by (auto simp: make_below [OF below0] Let_def printf_def emit_def)
  have below1: "sint (rtc_cntl_store0 ?w1) < 2"
    by simp
  have second: "make p a2 ?w1 =
      (Returned 0,
       w\<lparr>rtc_cntl_store0 := 2,
         events := events w @ [RegRead, RegWrite 1, Stdout make_output,
                               RegRead, RegWrite 2, Stdout make_output]\<rparr>)"
    using assms(3) by (auto simp: make_below [OF below1] Let_def printf_def emit_def)
  have "make_output \<noteq> refusal_line"
    by (simp add: make_output_def refusal_line_def)
  with first second show ?thesis
    by simp
qed

theorem make_first_two_invocations_witness:
  "make demo_platform [''make''] (fresh_hw 0) =
     (Returned 0, \<lparr>rtc_cntl_store0 = 1, events = [RegRead, RegWrite 1, Stdout make_output]\<rparr>) \<and>
   make demo_platform [''make'', ''all''] (snd (make demo_platform [''make''] (fresh_hw 0))) =
     (Returned 0,
      \<lparr>rtc_cntl_store0 = 2,
       events = [RegRead, RegWrite 1, Stdout make_output,
                 RegRead, RegWrite 2, Stdout make_output]\<rparr>)"
  using make_first_two_invocations
          [of "fresh_hw 0" "[''make'']" "''make''" "[''make'', ''all'']" "''make''" demo_platform]
  by (auto simp: fresh_hw_def)

text \<open>
  C1, as the claim states it, fails. \<^verbatim>\<open>make all bogus flash\<close> prints the error line for
  \<^verbatim>\<open>bogus\<close> and nothing else: the make block that \<^verbatim>\<open>all\<close> requested before it and
  the blocks that \<^verbatim>\<open>flash\<close> requests after it are not printed.
\<close>

theorem make_unknown_target_continues_counterexample:
  "make demo_platform [''make'', ''all'', ''bogus'', ''flash''] (fresh_hw 0) =
     (Returned 0,
      \<lparr>rtc_cntl_store0 = 1,
       events = [RegRead, RegWrite 1, Stdout (no_rule_line ''bogus'')]\<rparr>) \<and>
   Stdout make_output \<notin>
     set (events (snd (make demo_platform [''make'', ''all'', ''bogus'', ''flash''] (fresh_hw 0))))"
proof -
  have run: "make demo_platform [''make'', ''all'', ''bogus'', ''flash''] (fresh_hw 0) =
     (Returned 0,
      \<lparr>rtc_cntl_store0 = 1,
       events = [RegRead, RegWrite 1, Stdout (no_rule_line ''bogus'')]\<rparr>)"
    by (simp add: make_below fresh_hw_def char0_def isdigit_def printf_def emit_def)
  have "make_output \<noteq> no_rule_line ''bogus''"
    by (simp add: make_output_def no_rule_line_def)
  with run show ?thesis
    by simp
qed

text \<open>
  C1, amended. For every argument vector (counter below the threshold) that contains a
  token which is not \<^verbatim>\<open>all\<close>, \<^verbatim>\<open>flash\<close> or \<^verbatim>\<open>monitor\<close> and starts with neither
  \<^verbatim>\<open>-\<close> nor a digit, the handler prints one "no rule to make target" line, for the first
  such token, and returns 0 at once: the arguments after it are not scanned and no phase
  block is printed, whatever the tokens before and after it request.
\<close>

theorem make_unknown_target_stops:
  assumes "sint (rtc_cntl_store0 w) < 2"
    and "\<forall>a \<in> set pre. \<not> unknown_target a"
    and "unknown_target t"
  shows "make p (argv0 # pre @ t # post) w =
           (Returned 0,
            w\<lparr>rtc_cntl_store0 := rtc_cntl_store0 w + 1,
              events := events w @
                [RegRead, RegWrite (rtc_cntl_store0 w + 1), Stdout (no_rule_line t)]\<rparr>)"
proof -
  have "find unknown_target (pre @ t # post) = Some t"
    using assms(2,3) by (rule find_first_unknown)
  then show ?thesis
    by (simp add: make_below [OF assms(1)] scan_args_unknown printf_def emit_def)
qed

theorem make_unknown_target_stops_witness:
  "make demo_platform [''make'', ''-j'', ''4'', ''all'', ''bogus'', ''flash'', ''monitor'']
     (fresh_hw 0) =
     (Returned 0,
      \<lparr>rtc_cntl_store0 = 1,
       events = [RegRead, RegWrite 1, Stdout (no_rule_line ''bogus'')]\<rparr>)"
  using make_unknown_target_stops
          [of "fresh_hw 0" "[''-j'', ''4'', ''all'']" "''bogus''" demo_platform "''make''"
              "[''flash'', ''monitor'']"]
  by (simp add: fresh_hw_def unknown_target_def char0_def isdigit_def)

text \<open>
  C10. The counter is checked and written back before the arguments are scanned: a call
  (counter below the threshold) that only prints the "no rule to make target" line has
  first written the incremented counter to the register, so it uses up one of the calls
  that are answered. When the counter was 1, the next call of \<^verbatim>\<open>make\<close> refuses.
\<close>

theorem make_unknown_target_persists_counter:
  assumes "sint (rtc_cntl_store0 w) < 2"
    and "find unknown_target (drop 1 argv) = Some t"
  shows "make p argv w =
           (Returned 0,
            w\<lparr>rtc_cntl_store0 := rtc_cntl_store0 w + 1,
              events := events w @
                [RegRead, RegWrite (rtc_cntl_store0 w + 1), Stdout (no_rule_line t)]\<rparr>) \<and>
         sint (rtc_cntl_store0 (snd (make p argv w))) = sint (rtc_cntl_store0 w) + 1 \<and>
         (sint (rtc_cntl_store0 w) = 1 \<longrightarrow> refuses p argv' (snd (make p argv w)))"
proof -
  have run: "make p argv w =
           (Returned 0,
            w\<lparr>rtc_cntl_store0 := rtc_cntl_store0 w + 1,
              events := events w @
                [RegRead, RegWrite (rtc_cntl_store0 w + 1), Stdout (no_rule_line t)]\<rparr>)"
    using assms(2)
    by (simp add: make_below [OF assms(1)] scan_args_unknown printf_def emit_def)
  have inc: "sint (rtc_cntl_store0 (snd (make p argv w))) = sint (rtc_cntl_store0 w) + 1"
    by (simp add: run sint_below [OF assms(1)])
  have "refuses p argv' (snd (make p argv w))" if "sint (rtc_cntl_store0 w) = 1"
    using that inc by (simp add: refuses_iff INT_MAX_def)
  with run inc show ?thesis
    by simp
qed

theorem make_unknown_target_persists_counter_witness:
  "make demo_platform [''make'', ''bogus''] (fresh_hw 1) =
     (Returned 0,
      \<lparr>rtc_cntl_store0 = 2,
       events = [RegRead, RegWrite 2, Stdout (no_rule_line ''bogus'')]\<rparr>) \<and>
   sint (rtc_cntl_store0 (snd (make demo_platform [''make'', ''bogus''] (fresh_hw 1)))) = 2 \<and>
   refuses demo_platform [''make'', ''all'']
     (snd (make demo_platform [''make'', ''bogus''] (fresh_hw 1)))"
  using make_unknown_target_persists_counter
          [of "fresh_hw 1" "[''make'', ''bogus'']" "''bogus''" demo_platform "[''make'', ''all'']"]
  by (auto simp: fresh_hw_def unknown_target_def char0_def isdigit_def)

text \<open>
  C2, as the claim states it, fails. With the counter at 2 the call ends in the refusal
  line and the incremented value 3 is not written: the register still holds 2.
\<close>

theorem make_counter_persisted_counterexample:
  "make demo_platform [''make''] (fresh_hw 2) =
     (Returned 0, \<lparr>rtc_cntl_store0 = 2, events = [RegRead, Stdout refusal_line]\<rparr>) \<and>
   rtc_cntl_store0 (snd (make demo_platform [''make''] (fresh_hw 2))) \<noteq> 3 \<and>
   RegWrite 3 \<notin> set (events (snd (make demo_platform [''make''] (fresh_hw 2))))"
proof -
  have "make demo_platform [''make''] (fresh_hw 2) =
     (Returned 0, \<lparr>rtc_cntl_store0 = 2, events = [RegRead, Stdout refusal_line]\<rparr>)"
    by (simp add: make_at_threshold fresh_hw_def INT_MAX_def)
  then show ?thesis
    by simp
qed

text \<open>
  C2, amended. On every call of \<^verbatim>\<open>make\<close> (whose increment does not overflow \<^verbatim>\<open>int\<close>)
  the register is read once; the incremented value is written back exactly when it is
  below 3, so a call that ends in the refusal line leaves the register as it was. No
  other value is written, and \<^verbatim>\<open>restart\<close>, \<^verbatim>\<open>free\<close>, \<^verbatim>\<open>heap_dump\<close> and \<^verbatim>\<open>tasks\<close>
  do not change the register: the module never resets the counter.
\<close>

theorem make_counter_update:
  assumes "sint (rtc_cntl_store0 w) \<noteq> INT_MAX"
  shows "reg_events (events (snd (make p argv w))) =
           reg_events (events w) @
           (if sint (rtc_cntl_store0 w) + 1 < 3
            then [RegRead, RegWrite (rtc_cntl_store0 w + 1)] else [RegRead]) \<and>
         rtc_cntl_store0 (snd (make p argv w)) =
           (if sint (rtc_cntl_store0 w) + 1 < 3 then rtc_cntl_store0 w + 1
            else rtc_cntl_store0 w) \<and>
         rtc_cntl_store0 (snd (restart p argv w)) = rtc_cntl_store0 w \<and>
         rtc_cntl_store0 (snd (free_mem p argv w)) = rtc_cntl_store0 w \<and>
         rtc_cntl_store0 (snd (dump_heap p argv w)) = rtc_cntl_store0 w \<and>
         rtc_cntl_store0 (snd (tasks_info p argv w)) = rtc_cntl_store0 w"
proof (cases "sint (rtc_cntl_store0 w) < 2")
  case True
  then show ?thesis
    by (simp add: make_effect_below restart_def free_mem_def dump_heap_def tasks_info_def
          fputs_stdout_def Let_def split: option.splits)
next
  case False
  with assms have "2 \<le> sint (rtc_cntl_store0 w)" "sint (rtc_cntl_store0 w) \<noteq> INT_MAX"
    by simp_all
  with False show ?thesis
    by (simp add: make_effect_at_threshold restart_def free_mem_def dump_heap_def
          tasks_info_def fputs_stdout_def Let_def split: option.splits)
qed

theorem make_counter_update_witness:
  "reg_events (events (snd (make demo_platform [''make'', ''flash''] (fresh_hw 1)))) =
     [RegRead, RegWrite 2] \<and>
   rtc_cntl_store0 (snd (make demo_platform [''make'', ''flash''] (fresh_hw 1))) = 2 \<and>
   reg_events (events (snd (make demo_platform [''make'', ''flash''] (fresh_hw 2)))) =
     [RegRead] \<and>
   rtc_cntl_store0 (snd (make demo_platform [''make'', ''flash''] (fresh_hw 2))) = 2"
  using make_counter_update [of "fresh_hw 1" demo_platform "[''make'', ''flash'']"]
        make_counter_update [of "fresh_hw 2" demo_platform "[''make'', ''flash'']"]
  by (simp add: fresh_hw_def INT_MAX_def)

text \<open>
  C9. A call of \<^verbatim>\<open>make\<close> writes the register only when the incremented count is below
  3, and then writes that count; at or above the threshold it writes nothing and leaves
  the register as it was. So a counter of at most 2 (read as \<^verbatim>\<open>int\<close>, or unsigned from
  0, 1 or 2) is still at most 2 after any number of calls, and after a call that took
  the refusal branch every later call refuses as well, with the register unchanged.
\<close>

theorem make_counter_bounded:
  "(sint (rtc_cntl_store0 wa) < 2 \<longrightarrow>
      reg_events (events (snd (make p a wa))) =
        reg_events (events wa) @ [RegRead, RegWrite (rtc_cntl_store0 wa + 1)] \<and>
      sint (rtc_cntl_store0 wa + 1) < 3) \<and>
   (2 \<le> sint (rtc_cntl_store0 wb) \<and> sint (rtc_cntl_store0 wb) \<noteq> INT_MAX \<longrightarrow>
      reg_events (events (snd (make p b wb))) = reg_events (events wb) @ [RegRead] \<and>
      rtc_cntl_store0 (snd (make p b wb)) = rtc_cntl_store0 wb) \<and>
   (sint (rtc_cntl_store0 wc) \<le> 2 \<longrightarrow>
      sint (rtc_cntl_store0 (make_runs p argvs wc)) \<le> 2) \<and>
   (rtc_cntl_store0 wd \<le> 2 \<longrightarrow> rtc_cntl_store0 (make_runs p argvs' wd) \<le> 2) \<and>
   (refuses p c we \<longrightarrow>
      rtc_cntl_store0 (make_runs p argvs'' (snd (make p c we))) = rtc_cntl_store0 we \<and>
      refuses p c' (make_runs p argvs'' (snd (make p c we))))"
proof -
  have below: "reg_events (events (snd (make p a wa))) =
        reg_events (events wa) @ [RegRead, RegWrite (rtc_cntl_store0 wa + 1)] \<and>
      sint (rtc_cntl_store0 wa + 1) < 3" if "sint (rtc_cntl_store0 wa) < 2"
    using that by (simp add: make_effect_below sint_below)
  have at: "reg_events (events (snd (make p b wb))) = reg_events (events wb) @ [RegRead] \<and>
      rtc_cntl_store0 (snd (make p b wb)) = rtc_cntl_store0 wb"
    if "2 \<le> sint (rtc_cntl_store0 wb) \<and> sint (rtc_cntl_store0 wb) \<noteq> INT_MAX"
    using that by (simp add: make_effect_at_threshold)
  have forever: "rtc_cntl_store0 (make_runs p argvs'' (snd (make p c we))) = rtc_cntl_store0 we \<and>
      refuses p c' (make_runs p argvs'' (snd (make p c we)))" if "refuses p c we"
  proof -
    from that have r: "2 \<le> sint (rtc_cntl_store0 we)" "sint (rtc_cntl_store0 we) \<noteq> INT_MAX"
      by (simp_all add: refuses_iff)
    then have "rtc_cntl_store0 (snd (make p c we)) = rtc_cntl_store0 we"
      by (simp add: make_effect_at_threshold)
    with r have "rtc_cntl_store0 (make_runs p argvs'' (snd (make p c we))) = rtc_cntl_store0 we"
      by (simp add: make_runs_at_threshold)
    with r show ?thesis
      by (simp add: refuses_iff)
  qed
  from below at forever show ?thesis
    by (simp add: make_runs_keeps_bound make_runs_keeps_small)
qed

theorem make_counter_bounded_witness:
  "reg_events (events (snd (make demo_platform [''make''] (fresh_hw 1)))) =
     [RegRead, RegWrite 2] \<and>
   reg_events (events (snd (make demo_platform [''make''] (fresh_hw 2)))) = [RegRead] \<and>
   rtc_cntl_store0 (snd (make demo_platform [''make''] (fresh_hw 2))) = 2 \<and>
   sint (rtc_cntl_store0
     (make_runs demo_platform [[''make''], [''make'', ''flash''], [''make'']] (fresh_hw 0))) \<le> 2 \<and>
   rtc_cntl_store0
     (make_runs demo_platform [[''make''], [''make'', ''flash''], [''make'']] (fresh_hw 0)) \<le> 2 \<and>
   refuses demo_platform [''make'', ''all'']
     (make_runs demo_platform [[''make'', ''flash'']]
        (snd (make demo_platform [''make''] (fresh_hw 2))))"
  using make_counter_bounded
          [of "fresh_hw 1" demo_platform "[''make'']" "fresh_hw 2" "[''make'']" "fresh_hw 0"
              "[[''make''], [''make'', ''flash''], [''make'']]" "fresh_hw 0"
              "[[''make''], [''make'', ''flash''], [''make'']]"
              "[''make'']" "fresh_hw 2" "[[''make'', ''flash'']]" "[''make'', ''all'']"]
  by (simp add: fresh_hw_def INT_MAX_def refuses_iff)

subsection \<open>Claims about tasks\<close>

text \<open>
  C8. When \<^verbatim>\<open>malloc\<close> fails, \<^verbatim>\<open>tasks\<close> logs an error and returns 1: it writes nothing
  to standard output and frees nothing. When \<^verbatim>\<open>malloc\<close> succeeds, it prints the header
  and the task records, frees the buffer and returns 0.
\<close>

theorem tasks_info_alloc:
  "(malloc pf (uxTaskGetNumberOfTasks pf * 40) = None \<longrightarrow>
      tasks_info pf argv w =
        (Returned 1,
         w\<lparr>events := events w @
              [Malloc (uxTaskGetNumberOfTasks pf * 40) None,
               EspLogE ''tasks_info'' ''failed to allocate buffer for vTaskList output'']\<rparr>)) \<and>
   (malloc ps (uxTaskGetNumberOfTasks ps * 40) = Some buf \<longrightarrow>
      tasks_info ps argv' w' =
        (Returned 0,
         w'\<lparr>events := events w' @
              [Malloc (uxTaskGetNumberOfTasks ps * 40) (Some buf),
               Stdout tasks_header, Stdout (vTaskList ps), Free buf]\<rparr>))"
  by (simp add: tasks_info_def Let_def emit_def fputs_stdout_def)

theorem tasks_info_alloc_witness:
  "tasks_info demo_platform [''tasks''] (fresh_hw 0) =
     (Returned 1,
      \<lparr>rtc_cntl_store0 = 0,
       events = [Malloc 120 None,
                 EspLogE ''tasks_info'' ''failed to allocate buffer for vTaskList output'']\<rparr>) \<and>
   tasks_info (demo_platform\<lparr>uxTaskGetNumberOfTasks := 2\<rparr>) [''tasks''] (fresh_hw 0) =
     (Returned 0,
      \<lparr>rtc_cntl_store0 = 0,
       events = [Malloc 80 (Some 0x3FFB0000), Stdout tasks_header,
                 Stdout (vTaskList demo_platform), Free 0x3FFB0000]\<rparr>)"
  using tasks_info_alloc
          [of demo_platform "[''tasks'']" "fresh_hw 0"
              "demo_platform\<lparr>uxTaskGetNumberOfTasks := 2\<rparr>" "0x3FFB0000"
              "[''tasks'']" "fresh_hw 0"]
  by (simp add: demo_platform_def fresh_hw_def)

end
